theory Spec2Isabelle
  imports Complex_Main "HOL-Library.Char_ord" "HOL-Library.List_Lexorder"
begin

section \<open>Errors and sequencing\<close>

text \<open>
  The exceptions the script can meet.  \<open>OSError\<close> stands for everything \<open>os.listdir\<close>
  raises (missing path, permission, not a directory), \<open>XdmfError\<close> for everything the
  seissolxdmf reader raises, \<open>ValueError\<close> and \<open>IndexError\<close> for numpy.
\<close>

datatype error = OSError | XdmfError | ValueError | IndexError

definition bindE :: "error + 'a \<Rightarrow> ('a \<Rightarrow> error + 'b) \<Rightarrow> error + 'b" where
  "bindE r f = (case r of Inl e \<Rightarrow> Inl e | Inr x \<Rightarrow> f x)"

fun mapE :: "('a \<Rightarrow> error + 'b) \<Rightarrow> 'a list \<Rightarrow> error + 'b list" where
  "mapE f [] = Inr []"
| "mapE f (x # xs) =
     (case f x of
        Inl e \<Rightarrow> Inl e
      | Inr y \<Rightarrow> (case mapE f xs of Inl e \<Rightarrow> Inl e | Inr ys \<Rightarrow> Inr (y # ys)))"

section \<open>Strings\<close>

text \<open>
  Python's \<open>s.split(sep)\<close> for a one-character separator: the string is cut at every
  occurrence of \<open>sep\<close>, empty pieces are kept, and the result is never empty
  (\<open>''''.split(''-'')\<close> is the list holding the empty string).
\<close>

fun str_split :: "char \<Rightarrow> string \<Rightarrow> string list" where
  "str_split sep [] = [[]]"
| "str_split sep (c # cs) =
     (if c = sep then [] # str_split sep cs
      else (case str_split sep cs of
              [] \<Rightarrow> [[c]]
            | w # ws \<Rightarrow> (c # w) # ws))"

section \<open>The environment: directory listings and file contents\<close>

text \<open>
  What the script reads from outside.  \<open>os_listdir\<close> is \<open>os.listdir\<close>;
  \<open>ReadNElements\<close> is opening a file with \<open>sx.seissolxdmf\<close> and asking it for its
  element count; \<open>data_rows\<close> gives the numeric rows \<open>np.loadtxt\<close> parses from a file
  after skipping its five header lines (an error when the text cannot be parsed).  The
  loaders only move samples around, so the type \<open>'v\<close> of a sample is left open.
\<close>

record 'v env =
  os_listdir :: "string \<Rightarrow> error + string list"
  ReadNElements :: "string \<Rightarrow> error + nat"
  data_rows :: "string \<Rightarrow> error + 'v list list"

text \<open>
  What the functions print: a line of text, or the line of \<open>load_ensemble_waveforms\<close>
  that reports the list of directories found.
\<close>

datatype printed_line = Text string | ReadingFrom "string list"

section \<open>Recognising SeisSol output\<close>

definition check_if_seissol_surface_receiver_file :: "string \<Rightarrow> bool" where
  "check_if_seissol_surface_receiver_file filename =
     (let out = False;
          out = (if ''receiver'' \<in> set (str_split CHR ''-'' filename) then True else out);
          out = (if last (str_split CHR ''.'' filename) \<noteq> ''dat'' then False else out)
      in out)"

text \<open>
  The first loop of \<open>check_if_seissol_dir\<close>.  The state is the flag \<open>out\<close> and the
  lines printed so far.  Every exception of the reader is caught by the bare
  \<open>except\<close>, which prints the two diagnostic lines and leaves \<open>out\<close> as it is.
\<close>

fun xdmf_loop ::
  "'v env \<Rightarrow> string \<Rightarrow> string list \<Rightarrow> bool \<times> printed_line list \<Rightarrow> bool \<times> printed_line list" where
  "xdmf_loop E path [] st = st"
| "xdmf_loop E path (i # files) (out, printed) =
     (if last (str_split CHR ''-'' i) = ''surface.xdmf'' then
        (case ReadNElements E (path @ i) of
           Inl e \<Rightarrow>
             xdmf_loop E path files
               (out, printed @ [Text (path @ i), Text ''A defect surface.xdmf file was detected.''])
         | Inr test \<Rightarrow> xdmf_loop E path files (True, printed))
      else xdmf_loop E path files (out, printed))"

text \<open>The second loop: counting the names that pass the receiver-file test.\<close>

fun receiver_loop :: "string list \<Rightarrow> nat \<Rightarrow> nat" where
  "receiver_loop [] number_surface_receiver = number_surface_receiver"
| "receiver_loop (i # files) number_surface_receiver =
     (if check_if_seissol_surface_receiver_file i
      then receiver_loop files (number_surface_receiver + 1)
      else receiver_loop files number_surface_receiver)"

text \<open>
  \<open>check_if_seissol_dir\<close> returns the flag together with the lines it printed.  The only
  call that can raise out of it is \<open>os.listdir\<close>, before anything is printed.
\<close>

definition check_if_seissol_dir :: "'v env \<Rightarrow> string \<Rightarrow> error + bool \<times> printed_line list" where
  "check_if_seissol_dir E path =
     (case os_listdir E path of
        Inl e \<Rightarrow> Inl e
      | Inr files \<Rightarrow>
          (let (out, printed) = xdmf_loop E path files (False, []);
               number_surface_receiver = receiver_loop files 0;
               out = (if number_surface_receiver = 0 then False else out)
           in Inr (out, printed)))"

text \<open>
  The loop of \<open>collect_seissol_dirs\<close>: the state is the list \<open>dirs\<close> and the printed
  lines.  An exception raised while a candidate is classified is swallowed by
  \<open>except: continue\<close>.
\<close>

fun collect_loop ::
  "'v env \<Rightarrow> string \<Rightarrow> string list \<Rightarrow> string list \<times> printed_line list
     \<Rightarrow> string list \<times> printed_line list" where
  "collect_loop E path [] st = st"
| "collect_loop E path (i # rest) (dirs, printed) =
     (case check_if_seissol_dir E (path @ i @ ''/'') of
        Inl e \<Rightarrow> collect_loop E path rest (dirs, printed)
      | Inr (ok, lines) \<Rightarrow>
          collect_loop E path rest ((if ok then dirs @ [i] else dirs), printed @ lines))"

text \<open>
  \<open>dirs.sort()\<close> orders strings lexicographically by character code, which is the
  order of \<open>HOL-Library.List_Lexorder\<close> over \<open>HOL-Library.Char_ord\<close>.  The listing
  of the root itself is outside the \<open>try\<close>, so its error propagates.
\<close>

definition collect_seissol_dirs :: "'v env \<Rightarrow> string \<Rightarrow> error + string list \<times> printed_line list" where
  "collect_seissol_dirs E path =
     (case os_listdir E path of
        Inl e \<Rightarrow> Inl e
      | Inr names \<Rightarrow>
          (let (dirs, printed) = collect_loop E path names ([], [])
           in Inr (sort dirs, printed)))"

section \<open>Arrays\<close>

text \<open>
  Arrays of two, three and four dimensions are nested lists, the first axis outermost.
  What \<open>np.loadtxt\<close> returns is one-dimensional (\<open>Arr1\<close>) or two-dimensional: a
  list of rows together with the number of columns (\<open>Arr2\<close>), which an array without
  rows still has.
\<close>

type_synonym 'v array2 = "'v list list"
type_synonym 'v array3 = "'v array2 list"
type_synonym 'v array4 = "'v array3 list"

datatype 'v ndarray = Arr1 "'v list" | Arr2 nat "'v list list"

definition shape2 :: "'v array2 \<Rightarrow> nat \<times> nat" where
  "shape2 m = (length m, (case m of [] \<Rightarrow> 0 | r # _ \<Rightarrow> length r))"

text \<open>
  The call \<open>np.loadtxt(filename, skiprows=5, usecols=(0, 7, 8, 9))\<close> on the parsed
  rows, with the default \<open>ndmin=0\<close>.  A row without the columns asked for is an error.
  The result has one row of four values for every data row, and axes of length one are
  squeezed away: a file with a single data row gives a one-dimensional array of four
  values, a file without data rows an array of shape \<open>(0, 4)\<close>.
\<close>

definition usecols :: "'v list \<Rightarrow> 'v list" where
  "usecols r = [r ! 0, r ! 7, r ! 8, r ! 9]"

definition np_loadtxt :: "'v list list \<Rightarrow> error + 'v ndarray" where
  "np_loadtxt rows =
     (if list_ex (\<lambda>r. length r < 10) rows then Inl ValueError
      else (case rows of
              [] \<Rightarrow> Inr (Arr2 4 [])
            | [r] \<Rightarrow> Inr (Arr1 (usecols r))
            | _ \<Rightarrow> Inr (Arr2 4 (map usecols rows))))"

text \<open>
  The attribute \<open>.T\<close>: a one-dimensional array is its own transpose; the transpose of
  a two-dimensional array has one row for every column.
\<close>

fun np_T :: "'v ndarray \<Rightarrow> 'v ndarray" where
  "np_T (Arr1 v) = Arr1 v"
| "np_T (Arr2 ncols m) = Arr2 (length m) (map (\<lambda>c. map (\<lambda>r. r ! c) m) [0 ..< ncols])"

text \<open>
  Python's slice \<open>xs[:stop]\<close>: a negative \<open>stop\<close> counts from the end, and the bound
  is clipped to the length.
\<close>

definition slice_to :: "'a list \<Rightarrow> int \<Rightarrow> 'a list" where
  "slice_to xs stop =
     (let n = int (length xs);
          k = (if stop < 0 then max 0 (n + stop) else min stop n)
      in take (nat k) xs)"

text \<open>
  \<open>data[:, :final_ind]\<close>: two indices on a one-dimensional array raise IndexError; on
  a two-dimensional array every row is cut.  The result is kept as the list of its rows.
\<close>

fun slice_columns :: "'v ndarray \<Rightarrow> int \<Rightarrow> error + 'v array2" where
  "slice_columns (Arr1 v) final_ind = Inl IndexError"
| "slice_columns (Arr2 ncols m) final_ind = Inr (map (\<lambda>row. slice_to row final_ind) m)"

section \<open>Loading waveforms\<close>

definition load_seissol_surface_receiver :: "'v env \<Rightarrow> string \<Rightarrow> int \<Rightarrow> error + 'v array2" where
  "load_seissol_surface_receiver E filename final_ind =
     bindE (data_rows E filename) (\<lambda>rows.
     bindE (np_loadtxt rows) (\<lambda>loaded.
     let data = np_T loaded in slice_columns data final_ind))"

text \<open>
  \<open>np.array\<close> on a list of arrays stacks them when they all have the same shape and
  raises otherwise.
\<close>

definition np_array :: "'v array2 list \<Rightarrow> error + 'v array3" where
  "np_array data =
     (if \<forall>a \<in> set data. \<forall>b \<in> set data. shape2 a = shape2 b then Inr data else Inl ValueError)"

definition load_all_seissol_receivers_from_dir :: "'v env \<Rightarrow> string \<Rightarrow> int \<Rightarrow> error + 'v array3" where
  "load_all_seissol_receivers_from_dir E path final_ind =
     bindE (os_listdir E path) (\<lambda>files.
     let surface_receiver = sort (filter check_if_seissol_surface_receiver_file files) in
     bindE (mapE (\<lambda>i. load_seissol_surface_receiver E (path @ i) final_ind) surface_receiver)
       np_array)"

text \<open>The default value of \<open>final_ind\<close> in the two loaders above.\<close>

definition default_final_ind :: int where
  "default_final_ind = - 1"

definition load_observations :: "'v env \<Rightarrow> string \<Rightarrow> error + 'v array3" where
  "load_observations E path = load_all_seissol_receivers_from_dir E path default_final_ind"

text \<open>
  \<open>load_ensemble_waveforms\<close> returns the stacked models, the directory names and what
  was printed: the lines of \<open>collect_seissol_dirs\<close>, then the line reporting the
  directories, which is printed before any of them is loaded.  Station records stack
  when they agree in station count and in the shape of their stations.
\<close>

definition np_array_models :: "'v array3 list \<Rightarrow> error + 'v array4" where
  "np_array_models data =
     (if \<forall>a \<in> set data. \<forall>b \<in> set data. map shape2 a = map shape2 b then Inr data
      else Inl ValueError)"

definition load_ensemble_waveforms ::
  "'v env \<Rightarrow> string \<Rightarrow> int \<Rightarrow> error + ('v array4 \<times> string list) \<times> printed_line list" where
  "load_ensemble_waveforms E path final_ind =
     bindE (collect_seissol_dirs E path) (\<lambda>(dirs, printed).
     let printed = printed @ [ReadingFrom dirs] in
     bindE (mapE (\<lambda>i. load_all_seissol_receivers_from_dir E (path @ i @ ''/'') final_ind) dirs)
       (\<lambda>data.
     bindE (np_array_models data) (\<lambda>stacked. Inr ((stacked, dirs), printed))))"

text \<open>
  The loading statements of the script body: the observations are loaded from
  \<open>obs_path\<close>, the ensemble from \<open>ensemble_dir\<close> with the command-line value
  \<open>final_ind\<close>.  Between the two the script prints \<open>obs_data.shape[2]\<close>, which
  raises for the one-dimensional array that a directory without receivers gives.  The
  result holds the two arrays and the directory names; the printed output is not kept.
\<close>

definition script_load ::
  "'v env \<Rightarrow> string \<Rightarrow> string \<Rightarrow> int \<Rightarrow> error + 'v array3 \<times> 'v array4 \<times> string list" where
  "script_load E obs_path ensemble_dir final_ind =
     bindE (load_observations E obs_path) (\<lambda>obs_data.
     if obs_data = [] then Inl IndexError
     else
     bindE (load_ensemble_waveforms E ensemble_dir final_ind) (\<lambda>((syn_data, model_dir_names), printed).
     Inr (obs_data, syn_data, model_dir_names)))"

section \<open>Notions of the specification\<close>

text \<open>A candidate is accepted when classifying it returns true and does not raise.\<close>

definition accepted :: "'v env \<Rightarrow> string \<Rightarrow> string \<Rightarrow> bool" where
  "accepted E path i =
     (case check_if_seissol_dir E (path @ i @ ''/'') of
        Inl e \<Rightarrow> False
      | Inr (ok, lines) \<Rightarrow> ok)"

text \<open>A string ends with a suffix.\<close>

definition ends_with :: "string \<Rightarrow> string \<Rightarrow> bool" where
  "ends_with s suffix \<longleftrightarrow>
     length suffix \<le> length s \<and> drop (length s - length suffix) s = suffix"

section \<open>An example environment\<close>

text \<open>
  A small directory tree on which the results below are run.  The directory \<open>o/\<close>
  holds the observations.  The root \<open>e/\<close> lists four candidates: \<open>m1\<close> and
  \<open>m2\<close> hold a metadata file and a receiver file, \<open>m3\<close> holds a metadata file only,
  and \<open>x\<close> cannot be listed.  Every metadata file can be read, and every receiver
  file holds the rows given as parameter.
\<close>

definition example_rows :: "real list list" where
  "example_rows =
     [[0, 1, 2, 3, 4, 5, 6, 7, 8, 9],
      [1, 1, 2, 3, 4, 5, 6, 5, 3, 1],
      [2, 1, 2, 3, 4, 5, 6, 2, 2, 2],
      [3, 1, 2, 3, 4, 5, 6, 9, 8, 7]]"

definition example_env :: "'v list list \<Rightarrow> 'v env" where
  "example_env rows =
     \<lparr>os_listdir = (\<lambda>p.
        if p = ''o/'' then Inr [''a-receiver-1.dat'', ''notes.txt'']
        else if p = ''e/'' then Inr [''m2'', ''m1'', ''x'', ''m3'']
        else if p = ''e/m1/'' then Inr [''a-surface.xdmf'', ''a-receiver-1.dat'']
        else if p = ''e/m2/'' then Inr [''surface.xdmf'', ''a-receiver-1.dat'']
        else if p = ''e/m3/'' then Inr [''a-surface.xdmf'']
        else Inl OSError),
      ReadNElements = (\<lambda>p. Inr 8),
      data_rows = (\<lambda>p. Inr rows)\<rparr>"

section \<open>Loading one receiver file\<close>

lemma np_loadtxt_rows:
  assumes "2 \<le> length rows" and "\<forall>r \<in> set rows. 10 \<le> length r"
  shows "np_loadtxt rows = Inr (Arr2 4 (map usecols rows))"
proof -
  obtain r1 r2 rest where rows: "rows = r1 # r2 # rest"
    using assms(1) by (cases rows; cases "tl rows") auto
  have "\<not> list_ex (\<lambda>r. length r < 10) rows"
    using assms(2) by (auto simp: list_ex_iff)
  then show ?thesis
    unfolding np_loadtxt_def by (simp add: rows)
qed

lemma np_T_usecols:
  "np_T (Arr2 4 (map usecols rows))
   = Arr2 (length rows) (map (\<lambda>c. map (\<lambda>r. r ! c) rows) [0, 7, 8, 9])"
proof -
  have u: "[0 ..< 4] = [0, 1, 2, 3 :: nat]" by (simp add: upt_rec)
  show ?thesis by (simp add: u usecols_def comp_def)
qed

lemma load_seissol_surface_receiver_rows:
  assumes "data_rows E filename = Inr rows"
    and "2 \<le> length rows" and "\<forall>r \<in> set rows. 10 \<le> length r"
  shows "load_seissol_surface_receiver E filename final_ind
         = Inr (map (\<lambda>c. slice_to (map (\<lambda>r. r ! c) rows) final_ind) [0, 7, 8, 9])"
  unfolding load_seissol_surface_receiver_def
  by (simp add: assms(1) np_loadtxt_rows[OF assms(2,3)] bindE_def np_T_usecols del: np_T.simps)

text \<open>
  For a receiver file that parses into \<open>N \<ge> 2\<close> rows of at least ten columns the
  loader does what it documents: with the default \<open>final_ind = -1\<close> it returns an
  array of shape \<open>(4, N - 1)\<close> holding all samples but the last of the columns
  0, 7, 8 and 9, and with a \<open>final_ind\<close> that is not negative it returns the samples
  with indices below \<open>final_ind\<close>, of shape \<open>(4, min final_ind N)\<close>.
\<close>

lemma load_seissol_surface_receiver_shape:
  assumes "data_rows E filename = Inr rows"
    and "2 \<le> length rows" and "\<forall>r \<in> set rows. 10 \<le> length r"
  shows "(\<exists>a. load_seissol_surface_receiver E filename default_final_ind = Inr a
            \<and> shape2 a = (4, length rows - 1)
            \<and> a = map (\<lambda>c. take (length rows - 1) (map (\<lambda>r. r ! c) rows)) [0, 7, 8, 9])
       \<and> (\<forall>final_ind \<ge> 0. \<exists>a. load_seissol_surface_receiver E filename final_ind = Inr a
            \<and> shape2 a = (4, min (nat final_ind) (length rows))
            \<and> a = map (\<lambda>c. take (nat final_ind) (map (\<lambda>r. r ! c) rows)) [0, 7, 8, 9])"
proof (intro conjI allI impI)
  have "slice_to (map (\<lambda>r. r ! c) rows) default_final_ind
        = take (length rows - 1) (map (\<lambda>r. r ! c) rows)" for c :: nat
    using assms(2) by (simp add: slice_to_def default_final_ind_def nat_diff_distrib')
  then show "\<exists>a. load_seissol_surface_receiver E filename default_final_ind = Inr a
            \<and> shape2 a = (4, length rows - 1)
            \<and> a = map (\<lambda>c. take (length rows - 1) (map (\<lambda>r. r ! c) rows)) [0, 7, 8, 9]"
    using load_seissol_surface_receiver_rows[OF assms, of default_final_ind]
    by (simp add: shape2_def)
next
  fix final_ind :: int
  assume nn: "0 \<le> final_ind"
  have "slice_to (map (\<lambda>r. r ! c) rows) final_ind
        = take (nat final_ind) (map (\<lambda>r. r ! c) rows)" for c :: nat
    using nn by (auto simp: slice_to_def min_def Let_def)
  then show "\<exists>a. load_seissol_surface_receiver E filename final_ind = Inr a
            \<and> shape2 a = (4, min (nat final_ind) (length rows))
            \<and> a = map (\<lambda>c. take (nat final_ind) (map (\<lambda>r. r ! c) rows)) [0, 7, 8, 9]"
    using load_seissol_surface_receiver_rows[OF assms, of final_ind]
    by (simp add: shape2_def min.commute)
qed

text \<open>A file without data rows is loaded as an array of shape \<open>(4, 0)\<close>.\<close>

lemma load_seissol_surface_receiver_no_rows:
  assumes "data_rows E filename = Inr []"
  shows "load_seissol_surface_receiver E filename final_ind = Inr [[], [], [], []]"
proof -
  have u: "[0 ..< 4] = [0, 1, 2, 3 :: nat]" by (simp add: upt_rec)
  show ?thesis
    by (simp add: load_seissol_surface_receiver_def assms bindE_def np_loadtxt_def u slice_to_def)
qed

text \<open>
  C5.  The claim promises, for a parseable receiver file of \<open>N\<close> timesteps and the
  default \<open>final_ind = -1\<close>, an array of shape \<open>(4, N - 1)\<close>, and the loader's own
  comment promises a two-dimensional array.  For \<open>N = 1\<close> the code does not deliver
  it: the single data row is loaded as a one-dimensional array of four values, and
  taking the columns of it raises IndexError instead of returning the array of shape
  \<open>(4, 0)\<close>.
\<close>

theorem load_seissol_surface_receiver_single_row:
  "load_seissol_surface_receiver (example_env [[0, 1, 2, 3, 4, 5, 6, 7, 8, 9 :: real]])
     ''o/a-receiver-1.dat'' default_final_ind = Inl IndexError"
  by (simp add: load_seissol_surface_receiver_def example_env_def bindE_def np_loadtxt_def)

section \<open>Splitting file names\<close>

lemma ends_with_iff: "ends_with s suffix \<longleftrightarrow> (\<exists>p. s = p @ suffix)"
proof
  assume "ends_with s suffix"
  then have "s = take (length s - length suffix) s @ suffix"
    by (metis append_take_drop_id ends_with_def)
  then show "\<exists>p. s = p @ suffix" ..
next
  assume "\<exists>p. s = p @ suffix"
  then show "ends_with s suffix" by (auto simp: ends_with_def)
qed

lemma str_split_nonempty: "str_split sep s \<noteq> []"
  by (induction s) (auto split: list.splits)

lemma str_split_no_sep: "sep \<notin> set s \<Longrightarrow> str_split sep s = [s]"
  by (induction s) auto

lemma str_split_append:
  "str_split sep (a @ sep # b) = str_split sep a @ str_split sep b"
proof (induction a)
  case Nil
  then show ?case by simp
next
  case (Cons c a)
  then show ?case
    using str_split_nonempty[of sep a] by (cases "str_split sep a") auto
qed

lemma last_str_split_eq:
  assumes "sep \<notin> set w"
  shows "last (str_split sep s) = w \<longleftrightarrow> s = w \<or> (\<exists>p. s = p @ sep # w)"
proof (cases "sep \<in> set s")
  case False
  then have "last (str_split sep s) = s" by (simp add: str_split_no_sep)
  moreover have "\<not> (\<exists>p. s = p @ sep # w)" using False by auto
  ultimately show ?thesis by auto
next
  case True
  then obtain a b where s: "s = a @ sep # b" and b: "sep \<notin> set b"
    by (meson split_list_last)
  have l: "last (str_split sep s) = b"
    by (simp add: s str_split_append str_split_no_sep[OF b])
  show ?thesis
  proof
    assume "last (str_split sep s) = w"
    then show "s = w \<or> (\<exists>p. s = p @ sep # w)" using l s by auto
  next
    assume "s = w \<or> (\<exists>p. s = p @ sep # w)"
    then obtain p where "s = p @ sep # w" using True assms by auto
    then show "last (str_split sep s) = w"
      by (simp add: str_split_append str_split_no_sep[OF assms])
  qed
qed

lemma receiver_file_rule:
  "check_if_seissol_surface_receiver_file f
   \<longleftrightarrow> ''receiver'' \<in> set (str_split CHR ''-'' f) \<and> last (str_split CHR ''.'' f) = ''dat''"
  by (simp add: check_if_seissol_surface_receiver_file_def)

lemma receiver_loop_count:
  "receiver_loop files n = n + length (filter check_if_seissol_surface_receiver_file files)"
  by (induction files arbitrary: n) auto

lemma xdmf_loop_flag:
  "fst (xdmf_loop E path files (out, printed))
   \<longleftrightarrow> out \<or> (\<exists>f \<in> set files. last (str_split CHR ''-'' f) = ''surface.xdmf''
                    \<and> (\<exists>n. ReadNElements E (path @ f) = Inr n))"
proof (induction files arbitrary: out printed)
  case Nil
  then show ?case by simp
next
  case (Cons i files)
  show ?case
  proof (cases "last (str_split CHR ''-'' i) = ''surface.xdmf''")
    case False
    then show ?thesis using Cons.IH by simp
  next
    case True
    then show ?thesis
      using Cons.IH by (cases "ReadNElements E (path @ i)") auto
  qed
qed

lemma check_if_seissol_dir_flag:
  assumes "os_listdir E path = Inr files"
  shows "\<exists>printed. check_if_seissol_dir E path
           = Inr ((\<exists>f \<in> set files. last (str_split CHR ''-'' f) = ''surface.xdmf''
                      \<and> (\<exists>n. ReadNElements E (path @ f) = Inr n))
                  \<and> (\<exists>f \<in> set files. check_if_seissol_surface_receiver_file f), printed)"
proof -
  obtain out printed where x: "xdmf_loop E path files (False, []) = (out, printed)"
    by (cases "xdmf_loop E path files (False, [])")
  have out: "out \<longleftrightarrow> (\<exists>f \<in> set files. last (str_split CHR ''-'' f) = ''surface.xdmf''
                      \<and> (\<exists>n. ReadNElements E (path @ f) = Inr n))"
    using xdmf_loop_flag[of E path files False "[]"] x by simp
  have cnt: "receiver_loop files 0 = 0 \<longleftrightarrow> \<not> (\<exists>f \<in> set files. check_if_seissol_surface_receiver_file f)"
    by (simp add: receiver_loop_count filter_empty_conv)
  show ?thesis
    unfolding check_if_seissol_dir_def using out cnt by (auto simp: assms x)
qed


section \<open>The example environment, evaluated\<close>

lemma example_m1: "check_if_seissol_dir (example_env rows) ''e/m1/'' = Inr (True, [])"
  by (simp add: check_if_seissol_dir_def example_env_def check_if_seissol_surface_receiver_file_def)

lemma example_m2: "check_if_seissol_dir (example_env rows) ''e/m2/'' = Inr (True, [])"
  by (simp add: check_if_seissol_dir_def example_env_def check_if_seissol_surface_receiver_file_def)

lemma example_m3: "check_if_seissol_dir (example_env rows) ''e/m3/'' = Inr (False, [])"
  by (simp add: check_if_seissol_dir_def example_env_def check_if_seissol_surface_receiver_file_def)

lemma example_x: "check_if_seissol_dir (example_env rows) ''e/x/'' = Inl OSError"
  by (simp add: check_if_seissol_dir_def example_env_def check_if_seissol_surface_receiver_file_def)

lemma example_collect: "collect_seissol_dirs (example_env rows) ''e/'' = Inr ([''m1'', ''m2''], [])"
  by (simp add: collect_seissol_dirs_def example_env_def check_if_seissol_dir_def check_if_seissol_surface_receiver_file_def)


section \<open>Classifying a directory\<close>

text \<open>
  C6.  When no name in the listing of a directory has the token \<open>receiver\<close> among its
  dash-separated components together with the extension \<open>dat\<close>,
  \<open>check_if_seissol_dir\<close> returns false, whatever the metadata reader answers.
\<close>

theorem check_if_seissol_dir_no_receivers:
  assumes "os_listdir E path = Inr files"
    and "\<forall>f \<in> set files. \<not> (''receiver'' \<in> set (str_split CHR ''-'' f)
                                \<and> last (str_split CHR ''.'' f) = ''dat'')"
  shows "\<exists>printed. check_if_seissol_dir E path = Inr (False, printed)"
  using check_if_seissol_dir_flag[OF assms(1)] assms(2) by (simp add: receiver_file_rule)


theorem check_if_seissol_dir_no_receivers_witness:
  "ReadNElements (example_env example_rows) (''e/m3/'' @ ''a-surface.xdmf'') = Inr 8
   \<and> (\<exists>printed. check_if_seissol_dir (example_env example_rows) ''e/m3/'' = Inr (False, printed))"
proof -
  have h1: "os_listdir (example_env example_rows) ''e/m3/'' = Inr [''a-surface.xdmf'']"
    by (simp add: example_env_def)
  have h2: "\<forall>f \<in> set [''a-surface.xdmf'']. \<not> (''receiver'' \<in> set (str_split CHR ''-'' f)
                                \<and> last (str_split CHR ''.'' f) = ''dat'')"
    by simp
  have "ReadNElements (example_env example_rows) (''e/m3/'' @ ''a-surface.xdmf'') = Inr 8"
    by (simp add: example_env_def)
  then show ?thesis
    using check_if_seissol_dir_no_receivers[OF h1 h2] by blast
qed

text \<open>
  C7, amended.  \<open>check_if_seissol_dir\<close> returns true exactly when some name in the
  listing is \<open>surface.xdmf\<close> or ends with \<open>-surface.xdmf\<close> and the file of that
  name can be opened and asked for its element count, and some name in the listing
  passes the receiver-file rule.
\<close>

theorem check_if_seissol_dir_true_iff:
  assumes "os_listdir E path = Inr files"
  shows "(\<exists>printed. check_if_seissol_dir E path = Inr (True, printed))
     \<longleftrightarrow> (\<exists>f \<in> set files. (f = ''surface.xdmf'' \<or> ends_with f ''-surface.xdmf'')
                            \<and> (\<exists>n. ReadNElements E (path @ f) = Inr n))
         \<and> (\<exists>f \<in> set files. ''receiver'' \<in> set (str_split CHR ''-'' f)
                               \<and> last (str_split CHR ''.'' f) = ''dat'')"
proof -
  have suffix: "last (str_split CHR ''-'' f) = ''surface.xdmf''
        \<longleftrightarrow> f = ''surface.xdmf'' \<or> ends_with f ''-surface.xdmf''" for f
    using last_str_split_eq[of "CHR ''-''" "''surface.xdmf''" f] by (simp add: ends_with_iff)
  let ?A = "\<exists>f \<in> set files. last (str_split CHR ''-'' f) = ''surface.xdmf''
                      \<and> (\<exists>n. ReadNElements E (path @ f) = Inr n)"
  let ?B = "\<exists>f \<in> set files. check_if_seissol_surface_receiver_file f"
  from check_if_seissol_dir_flag[OF assms] obtain printed where
    c: "check_if_seissol_dir E path = Inr (?A \<and> ?B, printed)" by blast
  have "(\<exists>printed. check_if_seissol_dir E path = Inr (True, printed)) \<longleftrightarrow> ?A \<and> ?B"
    unfolding c by simp
  then show ?thesis
    unfolding suffix receiver_file_rule .
qed


theorem check_if_seissol_dir_true_iff_witness:
  "(\<exists>printed. check_if_seissol_dir (example_env example_rows) ''e/m1/'' = Inr (True, printed))
   \<and> (\<exists>f \<in> set [''a-surface.xdmf'', ''a-receiver-1.dat''].
          (f = ''surface.xdmf'' \<or> ends_with f ''-surface.xdmf'')
          \<and> (\<exists>n. ReadNElements (example_env example_rows) (''e/m1/'' @ f) = Inr n))
   \<and> (\<exists>f \<in> set [''a-surface.xdmf'', ''a-receiver-1.dat''].
          ''receiver'' \<in> set (str_split CHR ''-'' f) \<and> last (str_split CHR ''.'' f) = ''dat'')"
proof -
  have h1: "os_listdir (example_env example_rows) ''e/m1/''
            = Inr [''a-surface.xdmf'', ''a-receiver-1.dat'']"
    by (simp add: example_env_def)
  have "\<exists>printed. check_if_seissol_dir (example_env example_rows) ''e/m1/'' = Inr (True, printed)"
    using example_m1 by blast
  then show ?thesis
    using check_if_seissol_dir_true_iff[OF h1] by blast
qed

text \<open>
  The claim as written asks for a name ending with \<open>-surface.xdmf\<close>.  The directory
  \<open>e/m2/\<close> holds the names \<open>surface.xdmf\<close> and \<open>a-receiver-1.dat\<close>: neither ends
  with \<open>-surface.xdmf\<close>, and the directory is classified true.
\<close>

theorem check_if_seissol_dir_suffix_counterexample:
  "os_listdir (example_env example_rows) ''e/m2/'' = Inr [''surface.xdmf'', ''a-receiver-1.dat'']
   \<and> check_if_seissol_dir (example_env example_rows) ''e/m2/'' = Inr (True, [])
   \<and> \<not> ends_with ''surface.xdmf'' ''-surface.xdmf''
   \<and> \<not> ends_with ''a-receiver-1.dat'' ''-surface.xdmf''"
  by (simp add: check_if_seissol_dir_def example_env_def
      check_if_seissol_surface_receiver_file_def ends_with_def)

section \<open>Collecting the ensemble\<close>

lemma collect_loop_dirs:
  "fst (collect_loop E path names (dirs, printed)) = dirs @ filter (accepted E path) names"
proof (induction names arbitrary: dirs printed)
  case Nil
  then show ?case by simp
next
  case (Cons i names)
  show ?case
  proof (cases "check_if_seissol_dir E (path @ i @ ''/'')")
    case (Inl e)
    then show ?thesis using Cons.IH by (simp add: accepted_def)
  next
    case (Inr r)
    obtain ok lines where r: "r = (ok, lines)" by (cases r)
    show ?thesis using Cons.IH Inr r by (simp add: accepted_def)
  qed
qed

lemma collect_seissol_dirs_result:
  assumes "os_listdir E path = Inr names"
  shows "\<exists>printed. collect_seissol_dirs E path
           = Inr (sort (filter (accepted E path) names), printed)"
proof -
  obtain dirs printed where c: "collect_loop E path names ([], []) = (dirs, printed)"
    by (cases "collect_loop E path names ([], [])")
  have "dirs = filter (accepted E path) names"
    using collect_loop_dirs[of E path names "[]" "[]"] c by simp
  then show ?thesis
    by (simp add: collect_seissol_dirs_def assms c)
qed

lemma accepted_iff:
  "accepted E path i \<longleftrightarrow> (\<exists>lines. check_if_seissol_dir E (path @ i @ ''/'') = Inr (True, lines))"
  by (auto simp: accepted_def split: sum.splits)


text \<open>
  C8.  The names a directory listing gives are distinct.  For a root whose listing
  succeeds, the list \<open>collect_seissol_dirs\<close> returns is sorted in ascending
  lexicographic order, has no duplicates, and holds exactly the names of the listing
  whose classification returned true without raising.
\<close>

theorem collect_seissol_dirs_sorted_distinct:
  assumes "os_listdir E path = Inr names" and "distinct names"
  shows "\<exists>dirs printed. collect_seissol_dirs E path = Inr (dirs, printed)
           \<and> sorted dirs \<and> distinct dirs
           \<and> set dirs = {i \<in> set names.
                 \<exists>lines. check_if_seissol_dir E (path @ i @ ''/'') = Inr (True, lines)}"
proof -
  from collect_seissol_dirs_result[OF assms(1)] obtain printed where
    "collect_seissol_dirs E path = Inr (sort (filter (accepted E path) names), printed)"
    by blast
  moreover have "distinct (sort (filter (accepted E path) names))"
    using assms(2) by simp
  moreover have "set (sort (filter (accepted E path) names)) = {i \<in> set names.
                 \<exists>lines. check_if_seissol_dir E (path @ i @ ''/'') = Inr (True, lines)}"
    by (auto simp: accepted_iff)
  ultimately show ?thesis
    by (intro exI[of _ "sort (filter (accepted E path) names)"] exI[of _ printed]) simp
qed


theorem collect_seissol_dirs_sorted_distinct_witness:
  "\<exists>dirs printed. collect_seissol_dirs (example_env example_rows) ''e/'' = Inr (dirs, printed)
      \<and> sorted dirs \<and> distinct dirs
      \<and> set dirs = {i \<in> set [''m2'', ''m1'', ''x'', ''m3''].
            \<exists>lines. check_if_seissol_dir (example_env example_rows) (''e/'' @ i @ ''/'')
                       = Inr (True, lines)}"
proof -
  have h1: "os_listdir (example_env example_rows) ''e/'' = Inr [''m2'', ''m1'', ''x'', ''m3'']"
    by (simp add: example_env_def)
  have h2: "distinct [''m2'', ''m1'', ''x'', ''m3'']" by simp
  show ?thesis
    using collect_seissol_dirs_sorted_distinct[OF h1 h2] .
qed

text \<open>
  C9.  For a root whose listing succeeds, \<open>collect_seissol_dirs\<close> returns a list
  whatever the classification of the candidates raises: a candidate whose classification
  raises is left out, and every candidate whose classification returns true is in the
  list.
\<close>

theorem collect_seissol_dirs_skips_errors:
  assumes "os_listdir E path = Inr names"
  shows "\<exists>dirs printed. collect_seissol_dirs E path = Inr (dirs, printed)
           \<and> (\<forall>i \<in> set names. (\<exists>e. check_if_seissol_dir E (path @ i @ ''/'') = Inl e) \<longrightarrow> i \<notin> set dirs)
           \<and> (\<forall>i \<in> set names. (\<exists>lines. check_if_seissol_dir E (path @ i @ ''/'') = Inr (True, lines))
                  \<longrightarrow> i \<in> set dirs)"
proof -
  from collect_seissol_dirs_result[OF assms(1)] obtain printed where
    "collect_seissol_dirs E path = Inr (sort (filter (accepted E path) names), printed)"
    by blast
  then show ?thesis
    by (intro exI[of _ "sort (filter (accepted E path) names)"] exI[of _ printed])
       (auto simp: accepted_iff)
qed


theorem collect_seissol_dirs_skips_errors_witness:
  "check_if_seissol_dir (example_env example_rows) (''e/'' @ ''x'' @ ''/'') = Inl OSError
   \<and> (\<exists>dirs printed. collect_seissol_dirs (example_env example_rows) ''e/'' = Inr (dirs, printed)
         \<and> ''x'' \<notin> set dirs \<and> ''m1'' \<in> set dirs \<and> ''m2'' \<in> set dirs)"
proof -
  have h1: "os_listdir (example_env example_rows) ''e/'' = Inr [''m2'', ''m1'', ''x'', ''m3'']"
    by (simp add: example_env_def)
  have x: "check_if_seissol_dir (example_env example_rows) (''e/'' @ ''x'' @ ''/'') = Inl OSError"
    using example_x by simp
  have m1: "check_if_seissol_dir (example_env example_rows) (''e/'' @ ''m1'' @ ''/'') = Inr (True, [])"
    using example_m1 by simp
  have m2: "check_if_seissol_dir (example_env example_rows) (''e/'' @ ''m2'' @ ''/'') = Inr (True, [])"
    using example_m2 by simp
  from collect_seissol_dirs_skips_errors[OF h1] obtain dirs printed where
    d: "collect_seissol_dirs (example_env example_rows) ''e/'' = Inr (dirs, printed)"
       "\<forall>i \<in> set [''m2'', ''m1'', ''x'', ''m3''].
          (\<exists>e. check_if_seissol_dir (example_env example_rows) (''e/'' @ i @ ''/'') = Inl e)
          \<longrightarrow> i \<notin> set dirs"
       "\<forall>i \<in> set [''m2'', ''m1'', ''x'', ''m3''].
          (\<exists>lines. check_if_seissol_dir (example_env example_rows) (''e/'' @ i @ ''/'')
                      = Inr (True, lines))
          \<longrightarrow> i \<in> set dirs"
    by blast
  have "''x'' \<notin> set dirs" using d(2) x by auto
  moreover have "''m1'' \<in> set dirs" using d(3) m1 by auto
  moreover have "''m2'' \<in> set dirs" using d(3) m2 by auto
  ultimately show ?thesis using x d(1) by blast
qed

section \<open>Loading the observations\<close>

lemma example_observations: "load_all_seissol_receivers_from_dir (example_env example_rows) ''o/'' (- 1)
  = Inr [[[0, 1, 2], [7, 5, 2], [8, 3, 2], [9, 1, 2]]]"
  by (simp add: load_all_seissol_receivers_from_dir_def example_env_def check_if_seissol_surface_receiver_file_def
    bindE_def load_seissol_surface_receiver_def np_loadtxt_def usecols_def upt_rec
    example_rows_def slice_to_def np_array_def)

lemma example_load_m1: "load_all_seissol_receivers_from_dir (example_env example_rows) ''e/m1/'' 2
  = Inr [[[0, 1], [7, 5], [8, 3], [9, 1]]]"
  by (simp add: load_all_seissol_receivers_from_dir_def example_env_def check_if_seissol_surface_receiver_file_def
    bindE_def load_seissol_surface_receiver_def np_loadtxt_def usecols_def upt_rec
    example_rows_def slice_to_def np_array_def)

lemma example_load_m2: "load_all_seissol_receivers_from_dir (example_env example_rows) ''e/m2/'' 2
  = Inr [[[0, 1], [7, 5], [8, 3], [9, 1]]]"
  by (simp add: load_all_seissol_receivers_from_dir_def example_env_def check_if_seissol_surface_receiver_file_def
    bindE_def load_seissol_surface_receiver_def np_loadtxt_def usecols_def upt_rec
    example_rows_def slice_to_def np_array_def)

lemma example_ensemble: "load_ensemble_waveforms (example_env example_rows) ''e/'' 2
  = Inr (([[[[0, 1], [7, 5], [8, 3], [9, 1]]], [[[0, 1], [7, 5], [8, 3], [9, 1]]]], [''m1'', ''m2'']),
         [ReadingFrom [''m1'', ''m2'']])"
  using example_load_m1 example_load_m2 by (simp add: load_ensemble_waveforms_def example_collect bindE_def np_array_models_def)

lemma example_script: "script_load (example_env example_rows) ''o/'' ''e/'' 2
  = Inr ([[[0, 1, 2], [7, 5, 2], [8, 3, 2], [9, 1, 2]]],
         [[[[0, 1], [7, 5], [8, 3], [9, 1]]], [[[0, 1], [7, 5], [8, 3], [9, 1]]]], [''m1'', ''m2''])"
  using example_observations by (simp add: script_load_def load_observations_def default_final_ind_def example_ensemble bindE_def)


lemma mapE_Inr:
  "mapE f xs = Inr ys \<Longrightarrow> length ys = length xs \<and> (\<forall>i < length xs. f (xs ! i) = Inr (ys ! i))"
proof (induction xs arbitrary: ys)
  case Nil
  then show ?case by simp
next
  case (Cons x xs)
  from Cons.prems obtain y ys' where
    y: "f x = Inr y" and ys': "mapE f xs = Inr ys'" and ys: "ys = y # ys'"
    by (auto split: sum.splits)
  from Cons.IH[OF ys'] show ?case
    using y ys by (auto simp: nth_Cons split: nat.splits)
qed

lemma load_all_stations:
  assumes "load_all_seissol_receivers_from_dir E path final_ind = Inr data"
  shows "\<exists>files. os_listdir E path = Inr files
           \<and> length data = length (filter check_if_seissol_surface_receiver_file files)
           \<and> (\<forall>s < length data.
                 load_seissol_surface_receiver E
                   (path @ sort (filter check_if_seissol_surface_receiver_file files) ! s) final_ind
                 = Inr (data ! s))"
proof -
  from assms obtain files where f: "os_listdir E path = Inr files"
    by (auto simp: load_all_seissol_receivers_from_dir_def bindE_def split: sum.splits)
  let ?names = "sort (filter check_if_seissol_surface_receiver_file files)"
  from assms f obtain loaded where
    l: "mapE (\<lambda>i. load_seissol_surface_receiver E (path @ i) final_ind) ?names = Inr loaded"
    and a: "np_array loaded = Inr data"
    by (auto simp: load_all_seissol_receivers_from_dir_def bindE_def split: sum.splits)
  have "data = loaded" using a by (auto simp: np_array_def split: if_splits)
  with mapE_Inr[OF l] f show ?thesis by auto
qed

text \<open>
  C10.  \<open>load_observations path\<close> is \<open>load_all_seissol_receivers_from_dir\<close> at
  \<open>path\<close> with \<open>final_ind = -1\<close>.  In the script the observations are loaded so
  whatever \<open>final_ind\<close> the command line gives: every observed station is a receiver
  file of the observation directory loaded with \<open>final_ind = -1\<close>, and the
  command-line value reaches the loading of the ensemble only.
\<close>

theorem load_observations_default:
  "load_observations E path = load_all_seissol_receivers_from_dir E path (- 1)
   \<and> (script_load E obs_path ensemble_dir final_ind = Inr (obs_data, syn_data, names)
        \<longrightarrow> load_all_seissol_receivers_from_dir E obs_path (- 1) = Inr obs_data
          \<and> (\<exists>printed. load_ensemble_waveforms E ensemble_dir final_ind
                = Inr ((syn_data, names), printed))
          \<and> (\<exists>files. os_listdir E obs_path = Inr files
                \<and> length obs_data = length (filter check_if_seissol_surface_receiver_file files)
                \<and> (\<forall>s < length obs_data.
                      load_seissol_surface_receiver E
                        (obs_path @ sort (filter check_if_seissol_surface_receiver_file files) ! s)
                        (- 1)
                      = Inr (obs_data ! s))))"
proof (intro conjI impI)
  show "load_observations E path = load_all_seissol_receivers_from_dir E path (- 1)"
    by (simp add: load_observations_def default_final_ind_def)
next
  assume s: "script_load E obs_path ensemble_dir final_ind = Inr (obs_data, syn_data, names)"
  then show o: "load_all_seissol_receivers_from_dir E obs_path (- 1) = Inr obs_data"
    by (auto simp: load_observations_def default_final_ind_def script_load_def bindE_def
        split: sum.splits if_splits)
  from s show "\<exists>printed. load_ensemble_waveforms E ensemble_dir final_ind
                = Inr ((syn_data, names), printed)"
    by (auto simp: load_observations_def default_final_ind_def script_load_def bindE_def
        split: sum.splits if_splits)
  from o show "\<exists>files. os_listdir E obs_path = Inr files
                \<and> length obs_data = length (filter check_if_seissol_surface_receiver_file files)
                \<and> (\<forall>s < length obs_data.
                      load_seissol_surface_receiver E
                        (obs_path @ sort (filter check_if_seissol_surface_receiver_file files) ! s)
                        (- 1)
                      = Inr (obs_data ! s))"
    by (rule load_all_stations)
qed

theorem load_observations_default_witness:
  "script_load (example_env example_rows) ''o/'' ''e/'' 2
     = Inr ([[[0, 1, 2], [7, 5, 2], [8, 3, 2], [9, 1, 2]]],
            [[[[0, 1], [7, 5], [8, 3], [9, 1]]], [[[0, 1], [7, 5], [8, 3], [9, 1]]]],
            [''m1'', ''m2''])
   \<and> load_observations (example_env example_rows) ''o/''
       = load_all_seissol_receivers_from_dir (example_env example_rows) ''o/'' (- 1)
   \<and> load_all_seissol_receivers_from_dir (example_env example_rows) ''o/'' (- 1)
       = Inr [[[0, 1, 2], [7, 5, 2], [8, 3, 2], [9, 1, 2]]]
   \<and> (\<exists>printed. load_ensemble_waveforms (example_env example_rows) ''e/'' 2
         = Inr (([[[[0, 1], [7, 5], [8, 3], [9, 1]]], [[[0, 1], [7, 5], [8, 3], [9, 1]]]],
                 [''m1'', ''m2'']), printed))"
  using example_script
    load_observations_default[of "example_env example_rows" "''o/''" "''o/''" "''e/''" 2
      "[[[0, 1, 2], [7, 5, 2], [8, 3, 2], [9, 1, 2]]]"
      "[[[[0, 1], [7, 5], [8, 3], [9, 1]]], [[[0, 1], [7, 5], [8, 3], [9, 1]]]]"
      "[''m1'', ''m2'']"]
  by blast

end
